theory Spec2Isabelle
  imports Complex_Main "HOL-Library.Word"
begin

section \<open>JavaScript numbers\<close>

text \<open>
  A JavaScript number is a double: a finite value, which is a rational number, or one of
  \<open>NaN\<close>, \<open>Infinity\<close>, \<open>-Infinity\<close>. The two zeros are not told apart: nothing
  below depends on the sign of zero (\<open>ToInt16\<close> sends both to \<open>0\<close>, both are falsy and
  both print as \<open>0\<close>).
\<close>

datatype number = Num rat | NaN | PosInfinity | NegInfinity

text \<open>\<open>Math.min(a, b)\<close>: \<open>NaN\<close> if either argument is \<open>NaN\<close>, else the smaller one.\<close>

fun Math_min :: "number \<Rightarrow> number \<Rightarrow> number" where
  "Math_min NaN _ = NaN"
| "Math_min _ NaN = NaN"
| "Math_min NegInfinity _ = NegInfinity"
| "Math_min _ NegInfinity = NegInfinity"
| "Math_min PosInfinity b = b"
| "Math_min a PosInfinity = a"
| "Math_min (Num a) (Num b) = Num (min a b)"

text \<open>
  The operator \<open>*\<close>. On finite operands the model multiplies exactly. The only product the
  program forms is \<open>Math.min(1, s) * 0x7FFF\<close> with \<open>s\<close> an element of a
  \<open>Float32Array\<close>: a 24-bit significand times the 15-bit constant \<open>32767\<close> has at most
  39 significant bits and an exponent far inside the double range, so the double product
  is the exact product and no rounding takes place.
\<close>

fun js_times :: "number \<Rightarrow> number \<Rightarrow> number" where
  "js_times (Num a) (Num b) = Num (a * b)"
| "js_times NaN _ = NaN"
| "js_times _ NaN = NaN"
| "js_times PosInfinity (Num b) =
     (if b = 0 then NaN else if 0 < b then PosInfinity else NegInfinity)"
| "js_times NegInfinity (Num b) =
     (if b = 0 then NaN else if 0 < b then NegInfinity else PosInfinity)"
| "js_times (Num a) PosInfinity =
     (if a = 0 then NaN else if 0 < a then PosInfinity else NegInfinity)"
| "js_times (Num a) NegInfinity =
     (if a = 0 then NaN else if 0 < a then NegInfinity else PosInfinity)"
| "js_times PosInfinity PosInfinity = PosInfinity"
| "js_times PosInfinity NegInfinity = NegInfinity"
| "js_times NegInfinity PosInfinity = NegInfinity"
| "js_times NegInfinity NegInfinity = PosInfinity"

text \<open>The mathematical function \<open>truncate\<close> of ECMAScript: drop the fraction, towards zero.\<close>

definition js_truncate :: "rat \<Rightarrow> int" where
  "js_truncate x = (if x < 0 then \<lceil>x\<rceil> else \<lfloor>x\<rfloor>)"

text \<open>
  \<open>ToInt16\<close>, the conversion an \<open>Int16Array\<close> applies to every value stored in it:
  a value that is not finite becomes \<open>0\<close>; a finite one is truncated, reduced modulo
  \<open>2^16\<close> and read as two's complement.
\<close>

definition ToInt16 :: "number \<Rightarrow> int" where
  "ToInt16 n =
     (case n of
        Num x \<Rightarrow>
          (let i = js_truncate x; int16bit = i mod 2 ^ 16
           in if int16bit \<ge> 2 ^ 15 then int16bit - 2 ^ 16 else int16bit)
      | _ \<Rightarrow> 0)"

section \<open>The PCM encoder\<close>

text \<open>
  \<^verbatim>\<open>
  const convertFloat32ToInt16 = (buffer) => {
    let l = buffer.length;
    const buf = new Int16Array(l);
    for (let i = 0; i < l; i++) {
      buf[i] = Math.min(1, buffer[i]) * 0x7FFF;
    }
    return new Int16Array(buf).buffer;
  };
  \<close>
  The function is the same in both streaming variants of the component. An
  \<open>Int16Array\<close> is a list of 16-bit words, created filled with zeros; \<open>sint\<close> reads an
  element as the signed value JavaScript shows. \<open>convertFloat32ToInt16\<close> below is the
  copy of \<open>buf\<close> made in the last line, element by element; \<open>Int16Array_buffer\<close>
  is its \<open>ArrayBuffer\<close>.
\<close>

function conv_loop :: "number list \<Rightarrow> nat \<Rightarrow> nat \<Rightarrow> 16 word list \<Rightarrow> 16 word list" where
  "conv_loop buffer l i buf =
     (if i < l
      then conv_loop buffer l (i + 1)
             (buf[i := word_of_int (ToInt16 (js_times (Math_min (Num 1) (buffer ! i)) (Num 32767)))])
      else buf)"
  by pat_completeness auto
termination
  by (relation "measure (\<lambda>(buffer, l, i, buf). l - i)") auto

declare conv_loop.simps [simp del]

definition convertFloat32ToInt16 :: "number list \<Rightarrow> 16 word list" where
  "convertFloat32ToInt16 buffer =
     (let l = length buffer; buf = replicate l 0 in conv_loop buffer l 0 buf)"

text \<open>
  The function returns the \<open>ArrayBuffer\<close> of that copy: two bytes for each element, in
  input order, each element laid out in the byte order of the platform, which typed
  arrays follow and the code does not choose.
\<close>

datatype endianness = LittleEndian | BigEndian

fun Int16Array_buffer :: "endianness \<Rightarrow> 16 word list \<Rightarrow> 8 word list" where
  "Int16Array_buffer e [] = []"
| "Int16Array_buffer e (w # ws) =
     (case e of
        LittleEndian \<Rightarrow> [ucast w, ucast (drop_bit 8 w)]
      | BigEndian \<Rightarrow> [ucast (drop_bit 8 w), ucast w]) @ Int16Array_buffer e ws"

text \<open>The value the loop body stores for one sample (a name for the proofs below).\<close>

definition stored_sample :: "number \<Rightarrow> 16 word" where
  "stored_sample s = word_of_int (ToInt16 (js_times (Math_min (Num 1) s) (Num 32767)))"

text \<open>
  The encoder as the specification words it, for finite samples: clamp at \<open>1\<close> from above,
  scale by \<open>32767\<close>, round to the nearest integer.
\<close>

definition spec_encode_sample :: "rat \<Rightarrow> int" where
  "spec_encode_sample x = round (min 1 x * 32767)"

section \<open>JavaScript values\<close>

text \<open>
  The values the component handles: what \<open>JSON.parse\<close> returns (null, booleans,
  numbers, strings, arrays, objects as lists of own properties, each key listed once),
  \<open>undefined\<close> for a property that is not there, and the members of
  \<open>Object.prototype\<close>, which every object literal inherits.
\<close>

datatype error = SyntaxError | TypeError | InvalidStateError

datatype jsval =
    Undefined
  | Null
  | Bool bool
  | Number number
  | Str string
  | Arr "jsval list"
  | Obj "(string \<times> jsval) list"
  | Function string
  | ObjectPrototype

text \<open>\<open>ToBoolean\<close>, as the conditions \<open>if (data.text)\<close>, \<open>prev ? ... : ...\<close> and
  \<open>a || b\<close> apply it.\<close>

fun truthy :: "jsval \<Rightarrow> bool" where
  "truthy Undefined = False"
| "truthy Null = False"
| "truthy (Bool b) = b"
| "truthy (Number n) = (n \<noteq> Num 0 \<and> n \<noteq> NaN)"
| "truthy (Str s) = (s \<noteq> [])"
| "truthy _ = True"

text \<open>
  \<open>ToString\<close>, as string concatenation and template literals apply it. The digits of a
  number are the platform's business: \<open>ns\<close> is \<open>Number::toString\<close>. An array joins its
  elements with commas, \<open>null\<close> and \<open>undefined\<close> elements printing as nothing. A parsed
  object has no callable own property, so an object with an own property \<open>toString\<close>
  cannot be converted (a \<open>TypeError\<close>); any other object prints as \<open>[object Object]\<close>.
\<close>

fun ToString :: "(number \<Rightarrow> string) \<Rightarrow> jsval \<Rightarrow> error + string"
  and join_elements :: "(number \<Rightarrow> string) \<Rightarrow> jsval list \<Rightarrow> error + string" where
  "ToString ns Undefined = Inr ''undefined''"
| "ToString ns Null = Inr ''null''"
| "ToString ns (Bool b) = Inr (if b then ''true'' else ''false'')"
| "ToString ns (Number n) = Inr (ns n)"
| "ToString ns (Str s) = Inr s"
| "ToString ns (Arr xs) = join_elements ns xs"
| "ToString ns (Obj props) =
     (if ''toString'' \<in> set (map fst props) then Inl TypeError else Inr ''[object Object]'')"
| "ToString ns (Function f) = Inr (''function '' @ f @ ''() { [native code] }'')"
| "ToString ns ObjectPrototype = Inr ''[object Object]''"
| "join_elements ns [] = Inr ''''"
| "join_elements ns (x # xs) =
     (case (if x = Undefined \<or> x = Null then Inr '''' else ToString ns x) of
        Inl e \<Rightarrow> Inl e
      | Inr s \<Rightarrow>
          (if xs = [] then Inr s
           else (case join_elements ns xs of
                   Inl e \<Rightarrow> Inl e
                 | Inr t \<Rightarrow> Inr (s @ '','' @ t))))"

text \<open>The properties every ordinary object inherits from \<open>Object.prototype\<close>.\<close>

definition Object_prototype :: "(string \<times> jsval) list" where
  "Object_prototype =
     [(''constructor'', Function ''Object''),
      (''hasOwnProperty'', Function ''hasOwnProperty''),
      (''isPrototypeOf'', Function ''isPrototypeOf''),
      (''propertyIsEnumerable'', Function ''propertyIsEnumerable''),
      (''toLocaleString'', Function ''toLocaleString''),
      (''toString'', Function ''toString''),
      (''valueOf'', Function ''valueOf''),
      (''__defineGetter__'', Function ''__defineGetter__''),
      (''__defineSetter__'', Function ''__defineSetter__''),
      (''__lookupGetter__'', Function ''__lookupGetter__''),
      (''__lookupSetter__'', Function ''__lookupSetter__''),
      (''__proto__'', ObjectPrototype)]"

text \<open>\<open>obj[k]\<close> on an ordinary object: an own property, else an inherited one, else
  \<open>undefined\<close>.\<close>

definition lookup_object :: "(string \<times> jsval) list \<Rightarrow> string \<Rightarrow> jsval" where
  "lookup_object props k =
     (case map_of props k of
        Some v \<Rightarrow> v
      | None \<Rightarrow> (case map_of Object_prototype k of Some v \<Rightarrow> v | None \<Rightarrow> Undefined))"

text \<open>
  \<open>data.k\<close> for the four names the message handlers read (\<open>text\<close>, \<open>transcript\<close>,
  \<open>detected_lang\<close>, \<open>confidence\<close>): reading a property of \<open>null\<close> or \<open>undefined\<close>
  throws; booleans, numbers, strings and arrays have no property of these names.
\<close>

fun read_field :: "jsval \<Rightarrow> string \<Rightarrow> error + jsval" where
  "read_field Undefined k = Inl TypeError"
| "read_field Null k = Inl TypeError"
| "read_field (Obj props) k = Inr (lookup_object props k)"
| "read_field _ k = Inr Undefined"

section \<open>Voice selection\<close>

text \<open>
  In \<open>playTTS\<close>, the same in every variant of the component:
  \<^verbatim>\<open>
    const voiceMap = {
      en: 'en-US-JennyNeural',
      hi: 'hi-IN-SwaraNeural',
      zh: 'zh-CN-XiaoxiaoNeural',
    };
    const voice = voiceMap[targetLang] || 'en-US-JennyNeural';
  \<close>
  \<open>targetLang\<close> is the value of a free text field in the first variant of the component
  and of a selector offering \<open>en\<close>, \<open>hi\<close>, \<open>zh\<close> in the two streaming variants.
\<close>

definition voiceMap :: "(string \<times> jsval) list" where
  "voiceMap =
     [(''en'', Str ''en-US-JennyNeural''),
      (''hi'', Str ''hi-IN-SwaraNeural''),
      (''zh'', Str ''zh-CN-XiaoxiaoNeural'')]"

definition playTTS_voice :: "string \<Rightarrow> jsval" where
  "playTTS_voice targetLang =
     (let v = lookup_object voiceMap targetLang
      in if truthy v then v else Str ''en-US-JennyNeural'')"

section \<open>The platform\<close>

text \<open>
  Two built-ins are parameters of the model: \<open>JSON.parse\<close> (\<open>None\<close> where it throws a
  \<open>SyntaxError\<close>) and the printing of numbers.
\<close>

record platform =
  JSON_parse :: "string \<Rightarrow> jsval option"
  Number_toString :: "number \<Rightarrow> string"

text \<open>
  The browser objects the component holds, each with the part of its state the code
  reads or changes. A \<open>WebSocket\<close> carries its \<open>readyState\<close>, the binary frames handed
  to the network so far, and the two properties \<open>startRecording\<close> attaches to it
  (\<open>audioContext\<close>, \<open>processor\<close>). A \<open>MediaStream\<close> is the list of its tracks.
\<close>

datatype readyState = CONNECTING | OPEN | CLOSING | CLOSED
datatype context_state = Running | Closed
datatype node_state = Connected | Disconnected
datatype track_state = Live | Ended
datatype recorder_state = Inactive | Recording | Paused

record websocket =
  readyState :: readyState
  transmitted :: "16 word list list"
  audioContext :: "context_state option"
  processor :: "node_state option"

text \<open>\<open>WebSocket.close()\<close> starts the closing handshake of a connecting or open socket
  and does nothing to one that is closing or closed; it does not throw.\<close>

definition ws_close :: "websocket \<Rightarrow> websocket" where
  "ws_close sock =
     (if readyState sock = CONNECTING \<or> readyState sock = OPEN
      then sock\<lparr>readyState := CLOSING\<rparr> else sock)"

text \<open>\<open>WebSocket.send(data)\<close> throws on a connecting socket, transmits on an open one and
  discards the data silently on a closing or closed one.\<close>

definition ws_send :: "websocket \<Rightarrow> 16 word list \<Rightarrow> error + websocket" where
  "ws_send sock data =
     (case readyState sock of
        CONNECTING \<Rightarrow> Inl InvalidStateError
      | OPEN \<Rightarrow> Inr (sock\<lparr>transmitted := transmitted sock @ [data]\<rparr>)
      | _ \<Rightarrow> Inr sock)"

section \<open>The streaming component\<close>

text \<open>
  Two variants of the streaming \<open>App\<close> component are in the sources: the one in
  \<open>frontend/src/App.js\<close> (\<open>App_js\<close>), which appends each message's text, and the
  unnamed one (\<open>Part_000\<close>), which replaces the transcript. They differ in
  \<open>onopen\<close>, \<open>onmessage\<close>, \<open>onerror\<close> and \<open>onaudioprocess\<close>; \<open>startRecording\<close>,
  \<open>stopRecording\<close> and the \<open>MediaRecorder\<close> handlers are the same.

  The state is the component's \<open>useState\<close> values and \<open>useRef\<close> cells. A chunk of
  recorded audio is its size; a blob is the list of its chunks. Four more fields record
  what the code itself keeps no trace of:
  \<^item> \<open>superseded\<close>: the sockets a later \<open>startRecording\<close> replaced in \<open>socketRef\<close>; they
    stay connected, with their handlers and their audio graph;
  \<^item> \<open>alerts\<close>: the messages shown by \<open>alert\<close>;
  \<^item> \<open>rejections\<close>: the promises rejected with no handler;
  \<^item> \<open>encodeLog\<close>: every frame \<open>convertFloat32ToInt16\<close> has returned.
\<close>

record app =
  recording :: bool
  transcribedText :: jsval
  status :: string
  audioBlob :: "nat list option"
  socketRef :: "websocket option"
  mediaStreamRef :: "track_state list option"
  mediaRecorderRef :: "recorder_state option"
  audioChunksRef :: "nat list"
  superseded :: nat
  alerts :: "string list"
  rejections :: "error list"
  encodeLog :: "16 word list list"

definition initial :: app where
  "initial =
     \<lparr>recording = False, transcribedText = Str '''', status = '''', audioBlob = None,
      socketRef = None, mediaStreamRef = None, mediaRecorderRef = None,
      audioChunksRef = [], superseded = 0, alerts = [], rejections = [], encodeLog = []\<rparr>"

datatype variant = App_js | Part_000

text \<open>What a handler leaves behind: the exception it let escape, if any, and the state.\<close>

type_synonym outcome = "error option \<times> app"

subsection \<open>\<open>startRecording\<close>\<close>

text \<open>
  \<^verbatim>\<open>
  const startRecording = async () => {
    if (!navigator.mediaDevices || !navigator.mediaDevices.getUserMedia) {
      alert('Your browser does not support audio recording.');
      return;
    }
    try {
      const stream = await navigator.mediaDevices.getUserMedia({ audio: true });
      mediaStreamRef.current = stream;
      mediaRecorderRef.current = new MediaRecorder(stream);
      audioChunksRef.current = [];
      mediaRecorderRef.current.ondataavailable = ...;
      mediaRecorderRef.current.onstop = ...;
      mediaRecorderRef.current.start();
      const audioContext = new (window.AudioContext || window.webkitAudioContext)();
      const source = audioContext.createMediaStreamSource(stream);
      const processor = audioContext.createScriptProcessor(4096, 1, 1);
      socketRef.current = new WebSocket('ws://localhost:8000/ws/transcribe');
      socketRef.current.onopen = ...;
      socketRef.current.onmessage = ...;
      socketRef.current.onerror = ...;
      processor.onaudioprocess = ...;
      source.connect(processor);
      processor.connect(audioContext.destination);
      socketRef.current.audioContext = audioContext;
      socketRef.current.processor = processor;
    } catch (err) {
      alert('Error starting recording: ' + err.message);
    }
  };
  \<close>
  The function changes nothing before its \<open>await\<close>, so one call is one step, taken when
  \<open>getUserMedia\<close> settles. What the platform does decides how far the \<open>try\<close> block
  gets: no capture support, permission refused, or an exception from the
  \<open>MediaRecorder\<close> constructor, from \<open>start()\<close>, or from building the audio graph and
  the socket; otherwise the socket is created connecting.
\<close>

datatype start_outcome =
    Unsupported
  | Rejected string
  | RecorderThrows "track_state list" string
  | StartThrows "track_state list" string
  | GraphThrows "track_state list" string
  | Connecting "track_state list"

definition startRecording :: "app \<Rightarrow> start_outcome \<Rightarrow> outcome" where
  "startRecording s r =
     (case r of
        Unsupported \<Rightarrow>
          (None, s\<lparr>alerts := alerts s @ [''Your browser does not support audio recording.'']\<rparr>)
      | Rejected msg \<Rightarrow>
          (None, s\<lparr>alerts := alerts s @ [''Error starting recording: '' @ msg]\<rparr>)
      | RecorderThrows stream msg \<Rightarrow>
          (None, s\<lparr>mediaStreamRef := Some stream,
                    alerts := alerts s @ [''Error starting recording: '' @ msg]\<rparr>)
      | StartThrows stream msg \<Rightarrow>
          (None, s\<lparr>mediaStreamRef := Some stream, mediaRecorderRef := Some Inactive,
                    audioChunksRef := [],
                    alerts := alerts s @ [''Error starting recording: '' @ msg]\<rparr>)
      | GraphThrows stream msg \<Rightarrow>
          (None, s\<lparr>mediaStreamRef := Some stream, mediaRecorderRef := Some Recording,
                    audioChunksRef := [],
                    alerts := alerts s @ [''Error starting recording: '' @ msg]\<rparr>)
      | Connecting stream \<Rightarrow>
          (None, s\<lparr>mediaStreamRef := Some stream, mediaRecorderRef := Some Recording,
                    audioChunksRef := [],
                    socketRef := Some \<lparr>readyState = CONNECTING, transmitted = [],
                                       audioContext = Some Running,
                                       processor = Some Connected\<rparr>,
                    superseded := superseded s + (if socketRef s = None then 0 else 1)\<rparr>))"

subsection \<open>The socket handlers\<close>

text \<open>
  \<^verbatim>\<open>
  socketRef.current.onopen = () => {
    setStatus('Streaming to server...');     // 'Recording and streaming...' in the other variant
    setRecording(true);
  };
  \<close>
\<close>

definition onopen :: "variant \<Rightarrow> app \<Rightarrow> outcome" where
  "onopen v s =
     (None, s\<lparr>status := (case v of App_js \<Rightarrow> ''Streaming to server...''
                                   | Part_000 \<Rightarrow> ''Recording and streaming...''),
               recording := True\<rparr>)"

text \<open>
  \<^verbatim>\<open>
  socketRef.current.onmessage = (event) => {          // frontend/src/App.js
    const data = JSON.parse(event.data);
    if (data.text) {
      setTranscribedText(prev => prev ? prev + ' ' + data.text : data.text);
      setStatus(`Detected language: ${data.detected_lang} (confidence: ${data.confidence})`);
    }
  };
  socketRef.current.onmessage = (event) => {          // the other variant
    const data = JSON.parse(event.data);
    if (data.transcript) {
      setTranscribedText(data.transcript);
    }
  };
  \<close>
  Neither handler catches anything. The state updater and the template literal convert
  values to strings, which can throw for an object; an update that was computed is kept,
  and the first exception is the handler's.
\<close>

definition status_template :: "(number \<Rightarrow> string) \<Rightarrow> jsval \<Rightarrow> error + string" where
  "status_template ns data =
     (case read_field data ''detected_lang'' of
        Inl e \<Rightarrow> Inl e
      | Inr lang \<Rightarrow>
          (case ToString ns lang of
             Inl e \<Rightarrow> Inl e
           | Inr l \<Rightarrow>
               (case read_field data ''confidence'' of
                  Inl e \<Rightarrow> Inl e
                | Inr conf \<Rightarrow>
                    (case ToString ns conf of
                       Inl e \<Rightarrow> Inl e
                     | Inr c \<Rightarrow>
                         Inr (''Detected language: '' @ l @ '' (confidence: '' @ c @ '')'')))))"

definition append_text :: "(number \<Rightarrow> string) \<Rightarrow> jsval \<Rightarrow> jsval \<Rightarrow> error + jsval" where
  "append_text ns prev t =
     (if truthy prev
      then (case ToString ns prev of
              Inl e \<Rightarrow> Inl e
            | Inr p \<Rightarrow>
                (case ToString ns t of
                   Inl e \<Rightarrow> Inl e
                 | Inr u \<Rightarrow> Inr (Str (p @ '' '' @ u))))
      else Inr t)"

text \<open>The handler after \<open>JSON.parse\<close> has returned \<open>data\<close>.\<close>

definition apply_message :: "variant \<Rightarrow> (number \<Rightarrow> string) \<Rightarrow> app \<Rightarrow> jsval \<Rightarrow> outcome" where
  "apply_message v ns s data =
     (case v of
        App_js \<Rightarrow>
          (case read_field data ''text'' of
             Inl e \<Rightarrow> (Some e, s)
           | Inr t \<Rightarrow>
               if truthy t
               then (let new_text = append_text ns (transcribedText s) t;
                         new_status = status_template ns data;
                         s1 = (case new_text of
                                 Inr x \<Rightarrow> s\<lparr>transcribedText := x\<rparr> | Inl e \<Rightarrow> s);
                         s2 = (case new_status of
                                 Inr x \<Rightarrow> s1\<lparr>status := x\<rparr> | Inl e \<Rightarrow> s1)
                     in (case new_text of
                           Inl e \<Rightarrow> (Some e, s2)
                         | Inr x \<Rightarrow>
                             (case new_status of
                                Inl e \<Rightarrow> (Some e, s2) | Inr y \<Rightarrow> (None, s2))))
               else (None, s))
      | Part_000 \<Rightarrow>
          (case read_field data ''transcript'' of
             Inl e \<Rightarrow> (Some e, s)
           | Inr t \<Rightarrow>
               if truthy t then (None, s\<lparr>transcribedText := t\<rparr>) else (None, s)))"

definition onmessage :: "variant \<Rightarrow> platform \<Rightarrow> app \<Rightarrow> string \<Rightarrow> outcome" where
  "onmessage v env s payload =
     (case JSON_parse env payload of
        None \<Rightarrow> (Some SyntaxError, s)
      | Some data \<Rightarrow> apply_message v (Number_toString env) s data)"

text \<open>
  \<^verbatim>\<open>
  socketRef.current.onerror = (err) => {
    setStatus('WebSocket error: ' + err.message);     // setStatus('WebSocket error') in the other variant
  };
  \<close>
  The argument is the \<open>message\<close> property of the event.
\<close>

definition onerror :: "variant \<Rightarrow> (number \<Rightarrow> string) \<Rightarrow> app \<Rightarrow> jsval \<Rightarrow> outcome" where
  "onerror v ns s message =
     (case v of
        App_js \<Rightarrow>
          (case ToString ns message of
             Inl e \<Rightarrow> (Some e, s)
           | Inr m \<Rightarrow> (None, s\<lparr>status := ''WebSocket error: '' @ m\<rparr>))
      | Part_000 \<Rightarrow> (None, s\<lparr>status := ''WebSocket error''\<rparr>))"

subsection \<open>The audio callback\<close>

text \<open>
  \<^verbatim>\<open>
  processor.onaudioprocess = (e) => {                  // frontend/src/App.js
    const inputData = e.inputBuffer.getChannelData(0);
    const pcmData = convertFloat32ToInt16(inputData);
    if (socketRef.current && socketRef.current.readyState === WebSocket.OPEN) {
      socketRef.current.send(pcmData);
    }
  };
  processor.onaudioprocess = (e) => {                  // the other variant
    if (socketRef.current.readyState === 1) {
      const inputData = e.inputBuffer.getChannelData(0);
      const int16Data = convertFloat32ToInt16(inputData);
      socketRef.current.send(int16Data);
    }
  };
  \<close>
  The first encodes, then tests the socket. The second tests first, and reads
  \<open>readyState\<close> with no guard against an empty \<open>socketRef\<close>.
\<close>

definition onaudioprocess :: "variant \<Rightarrow> app \<Rightarrow> number list \<Rightarrow> outcome" where
  "onaudioprocess v s inputData =
     (case v of
        App_js \<Rightarrow>
          (let pcmData = convertFloat32ToInt16 inputData;
               s1 = s\<lparr>encodeLog := encodeLog s @ [pcmData]\<rparr>
           in (case socketRef s1 of
                 None \<Rightarrow> (None, s1)
               | Some sock \<Rightarrow>
                   if readyState sock = OPEN
                   then (case ws_send sock pcmData of
                           Inl e \<Rightarrow> (Some e, s1)
                         | Inr sock' \<Rightarrow> (None, s1\<lparr>socketRef := Some sock'\<rparr>))
                   else (None, s1)))
      | Part_000 \<Rightarrow>
          (case socketRef s of
             None \<Rightarrow> (Some TypeError, s)
           | Some sock \<Rightarrow>
               if readyState sock = OPEN
               then (let int16Data = convertFloat32ToInt16 inputData;
                         s1 = s\<lparr>encodeLog := encodeLog s @ [int16Data]\<rparr>
                     in (case ws_send sock int16Data of
                           Inl e \<Rightarrow> (Some e, s1)
                         | Inr sock' \<Rightarrow> (None, s1\<lparr>socketRef := Some sock'\<rparr>)))
               else (None, s)))"

subsection \<open>The recorder handlers\<close>

text \<open>
  \<^verbatim>\<open>
  mediaRecorderRef.current.ondataavailable = e => {
    if (e.data.size > 0) audioChunksRef.current.push(e.data);
  };
  mediaRecorderRef.current.onstop = () => {
    const blob = new Blob(audioChunksRef.current, { type: 'audio/webm' });
    setAudioBlob(blob);
  };
  \<close>
\<close>

definition ondataavailable :: "app \<Rightarrow> nat \<Rightarrow> outcome" where
  "ondataavailable s n =
     (if n > 0 then (None, s\<lparr>audioChunksRef := audioChunksRef s @ [n]\<rparr>) else (None, s))"

definition onstop :: "app \<Rightarrow> outcome" where
  "onstop s = (None, s\<lparr>audioBlob := Some (audioChunksRef s)\<rparr>)"

subsection \<open>\<open>stopRecording\<close>\<close>

text \<open>
  \<^verbatim>\<open>
  const stopRecording = () => {
    if (socketRef.current) {
      socketRef.current.close();
    }
    if (mediaStreamRef.current) {
      mediaStreamRef.current.getTracks().forEach(track => track.stop());
    }
    if (socketRef.current?.processor) {
      socketRef.current.processor.disconnect();
    }
    if (socketRef.current?.audioContext) {
      socketRef.current.audioContext.close();
    }
    if (mediaRecorderRef.current && mediaRecorderRef.current.state !== "inactive") {
      mediaRecorderRef.current.stop();
    }
    setRecording(false);
    setStatus('Stopped streaming.');
  };
  \<close>
  Stopping a track that has ended and disconnecting a node that is disconnected do
  nothing. \<open>AudioContext.close()\<close> returns a promise; on a context that is already
  closed the promise is rejected with an \<open>InvalidStateError\<close>, and the code attaches no
  handler to it.
\<close>

definition stopRecording :: "app \<Rightarrow> outcome" where
  "stopRecording s =
     (let s1 = (case socketRef s of
                  None \<Rightarrow> s
                | Some sock \<Rightarrow> s\<lparr>socketRef := Some (ws_close sock)\<rparr>);
          s2 = (case mediaStreamRef s1 of
                  None \<Rightarrow> s1
                | Some tracks \<Rightarrow> s1\<lparr>mediaStreamRef := Some (map (\<lambda>track. Ended) tracks)\<rparr>);
          s3 = (case socketRef s2 of
                  None \<Rightarrow> s2
                | Some sock \<Rightarrow>
                    (case processor sock of
                       None \<Rightarrow> s2
                     | Some p \<Rightarrow> s2\<lparr>socketRef := Some (sock\<lparr>processor := Some Disconnected\<rparr>)\<rparr>));
          s4 = (case socketRef s3 of
                  None \<Rightarrow> s3
                | Some sock \<Rightarrow>
                    (case audioContext sock of
                       None \<Rightarrow> s3
                     | Some Running \<Rightarrow> s3\<lparr>socketRef := Some (sock\<lparr>audioContext := Some Closed\<rparr>)\<rparr>
                     | Some Closed \<Rightarrow> s3\<lparr>rejections := rejections s3 @ [InvalidStateError]\<rparr>));
          s5 = (case mediaRecorderRef s4 of
                  None \<Rightarrow> s4
                | Some st \<Rightarrow>
                    if st \<noteq> Inactive then s4\<lparr>mediaRecorderRef := Some Inactive\<rparr> else s4)
      in (None, s5\<lparr>recording := False, status := ''Stopped streaming.''\<rparr>))"

text \<open>
  The first variant of the component, which records without streaming, stops so:
  \<^verbatim>\<open>
  const stopRecording = () => {
    if (mediaRecorderRef.current) {
      mediaRecorderRef.current.stop();
      setRecording(false);
      setStatus('Processing audio...');
    }
  };
  \<close>
  It calls \<open>stop()\<close> whatever the recorder's state. On an inactive recorder the current
  MediaRecorder specification returns silently and older browsers throw:
  \<open>stop_inactive\<close> is what the platform does there.
\<close>

definition stopRecording_v1 :: "error option \<Rightarrow> app \<Rightarrow> outcome" where
  "stopRecording_v1 stop_inactive s =
     (case mediaRecorderRef s of
        None \<Rightarrow> (None, s)
      | Some st \<Rightarrow>
          if st = Inactive \<and> stop_inactive \<noteq> None then (stop_inactive, s)
          else (None, s\<lparr>mediaRecorderRef := Some Inactive, recording := False,
                         status := ''Processing audio...''\<rparr>))"

subsection \<open>Events\<close>

text \<open>
  The component runs one handler at a time, in the order the user and the platform call
  them. A socket event comes from the socket in \<open>socketRef\<close> or from a superseded one,
  whose handlers are the same closures. The platform opens a socket only while it is
  connecting and delivers a message only while it is open; \<open>WsClose\<close> is the end of a
  connection, for which the code has no handler. An audio block is delivered while some
  audio graph is connected. The user's two buttons are not gated here by the
  \<open>recording\<close> flag, and events of superseded objects are admitted whenever an object
  has been superseded: the model admits every run the program has, and more.
\<close>

datatype origin = Current | Superseded

datatype event =
    StartRecording start_outcome
  | StopRecording
  | WsOpen origin
  | WsMessage origin string
  | WsError origin jsval
  | WsClose
  | AudioProcess "number list"
  | DataAvailable nat
  | RecorderStop

definition audio_enabled :: "app \<Rightarrow> bool" where
  "audio_enabled s =
     (superseded s > 0 \<or>
      (case socketRef s of
         None \<Rightarrow> False
       | Some sock \<Rightarrow> processor sock = Some Connected \<and> audioContext sock = Some Running))"

fun step :: "variant \<Rightarrow> platform \<Rightarrow> app \<Rightarrow> event \<Rightarrow> outcome" where
  "step v env s (StartRecording r) = startRecording s r"
| "step v env s StopRecording = stopRecording s"
| "step v env s (WsOpen Current) =
     (case socketRef s of
        None \<Rightarrow> (None, s)
      | Some sock \<Rightarrow>
          if readyState sock = CONNECTING
          then onopen v (s\<lparr>socketRef := Some (sock\<lparr>readyState := OPEN\<rparr>)\<rparr>)
          else (None, s))"
| "step v env s (WsOpen Superseded) = (if superseded s > 0 then onopen v s else (None, s))"
| "step v env s (WsMessage Current payload) =
     (case socketRef s of
        None \<Rightarrow> (None, s)
      | Some sock \<Rightarrow> if readyState sock = OPEN then onmessage v env s payload else (None, s))"
| "step v env s (WsMessage Superseded payload) =
     (if superseded s > 0 then onmessage v env s payload else (None, s))"
| "step v env s (WsError Current message) =
     (case socketRef s of
        None \<Rightarrow> (None, s)
      | Some sock \<Rightarrow> onerror v (Number_toString env) s message)"
| "step v env s (WsError Superseded message) =
     (if superseded s > 0 then onerror v (Number_toString env) s message else (None, s))"
| "step v env s WsClose =
     (case socketRef s of
        None \<Rightarrow> (None, s)
      | Some sock \<Rightarrow> (None, s\<lparr>socketRef := Some (sock\<lparr>readyState := CLOSED\<rparr>)\<rparr>))"
| "step v env s (AudioProcess inputData) =
     (if audio_enabled s then onaudioprocess v s inputData else (None, s))"
| "step v env s (DataAvailable n) =
     (if mediaRecorderRef s = None then (None, s) else ondataavailable s n)"
| "step v env s RecorderStop =
     (case mediaRecorderRef s of
        None \<Rightarrow> (None, s)
      | Some st \<Rightarrow> onstop (s\<lparr>mediaRecorderRef := Some Inactive\<rparr>))"

text \<open>An exception that escapes a handler is reported by the browser and the event loop
  goes on: the next event finds the state the handler left.\<close>

fun run :: "variant \<Rightarrow> platform \<Rightarrow> app \<Rightarrow> event list \<Rightarrow> app" where
  "run v env s [] = s"
| "run v env s (e # es) = run v env (snd (step v env s e)) es"



section \<open>The transcript, message by message\<close>

text \<open>The state after the handler has applied a list of parsed messages in order.\<close>

fun apply_messages :: "variant \<Rightarrow> (number \<Rightarrow> string) \<Rightarrow> app \<Rightarrow> jsval list \<Rightarrow> app" where
  "apply_messages v ns s [] = s"
| "apply_messages v ns s (d # ds) = apply_messages v ns (snd (apply_message v ns s d)) ds"

text \<open>
  A transcript message is an object whose text is a string; the variants read it under
  different keys. \<open>message_text\<close> is that string, when the message has one.
\<close>

definition text_key :: "variant \<Rightarrow> string" where
  "text_key v = (case v of App_js \<Rightarrow> ''text'' | Part_000 \<Rightarrow> ''transcript'')"

definition message_text :: "variant \<Rightarrow> jsval \<Rightarrow> string option" where
  "message_text v data =
     (case data of
        Obj props \<Rightarrow> (case map_of props (text_key v) of Some (Str t) \<Rightarrow> Some t | _ \<Rightarrow> None)
      | _ \<Rightarrow> None)"

text \<open>The specification's accumulated text under the append policy: the texts joined by
  single spaces.\<close>

fun space_join :: "string list \<Rightarrow> string" where
  "space_join [] = ''''"
| "space_join [t] = t"
| "space_join (t # u # ts) = t @ '' '' @ space_join (u # ts)"

definition nonempty :: "string list \<Rightarrow> string list" where
  "nonempty ts = filter (\<lambda>t. t \<noteq> '''') ts"

section \<open>Idle sessions\<close>

text \<open>A session that was never started holds no socket, stream or recorder.\<close>

definition never_started :: "app \<Rightarrow> bool" where
  "never_started s \<longleftrightarrow>
     socketRef s = None \<and> mediaStreamRef s = None \<and> mediaRecorderRef s = None \<and> \<not> recording s"

definition has_context :: "app \<Rightarrow> bool" where
  "has_context s = (case socketRef s of None \<Rightarrow> False | Some sock \<Rightarrow> audioContext sock \<noteq> None)"

definition closed_context :: "app \<Rightarrow> bool" where
  "closed_context s =
     (case socketRef s of None \<Rightarrow> False | Some sock \<Rightarrow> audioContext sock = Some Closed)"

text \<open>What \<open>stopRecording\<close> makes of the socket it finds.\<close>

definition stopped_socket :: "websocket \<Rightarrow> websocket" where
  "stopped_socket sock =
     (ws_close sock)\<lparr>processor := map_option (\<lambda>p. Disconnected) (processor sock),
                      audioContext := map_option (\<lambda>c. Closed) (audioContext sock)\<rparr>"

text \<open>
  Two facts hold in every state the component reaches: a superseded socket leaves a
  socket in \<open>socketRef\<close>, and nothing has been transmitted on a socket that is still
  connecting.
\<close>

definition audio_inv :: "app \<Rightarrow> bool" where
  "audio_inv s \<longleftrightarrow>
     (superseded s > 0 \<longrightarrow> socketRef s \<noteq> None) \<and>
     (\<forall>sock. socketRef s = Some sock \<longrightarrow> readyState sock = CONNECTING \<longrightarrow> transmitted sock = [])"


text \<open>A platform for the examples: its \<open>JSON.parse\<close> is given on four payloads and, as
  the real one does, rejects the two malformed payloads used below.\<close>

definition env0 :: platform where
  "env0 =
     \<lparr>JSON_parse = map_of
        [(''null'', Null),
         (''{\"text\":\"hello\"}'', Obj [(''text'', Str ''hello'')]),
         (''{\"text\":\"world\"}'', Obj [(''text'', Str ''world'')]),
         (''{\"text\":\"\"}'', Obj [(''text'', Str '''')])],
      Number_toString = (\<lambda>n. '''')\<rparr>"

section \<open>The waveform player\<close>

text \<open>
  \<^verbatim>\<open>
  const Waveform = ({ audioBlob, playing, onFinish }) => {
    const waveformRef = useRef(null);
    const wavesurfer = useRef(null);

    useEffect(() => {
      if (!waveformRef.current) return;
      wavesurfer.current = WaveSurfer.create({ container: waveformRef.current, ... });
      wavesurfer.current.on('finish', () => {
        if (onFinish) onFinish();
      });
      return () => {
        if (wavesurfer.current) {
          wavesurfer.current.destroy();
        }
      };
    }, [onFinish]);

    useEffect(() => {
      if (!wavesurfer.current || !audioBlob) return;
      const fileUrl = URL.createObjectURL(audioBlob);
      wavesurfer.current.load(fileUrl);
      return () => {
        URL.revokeObjectURL(fileUrl);
      };
    }, [audioBlob]);

    useEffect(() => {
      if (!wavesurfer.current) return;
      if (playing) {
        wavesurfer.current.play();
      } else {
        wavesurfer.current.pause();
      }
    }, [playing]);

    return <div ref={waveformRef} style={{ width: '100%' }} />;
  };
  \<close>
  and, in \<open>App\<close>:
  \<^verbatim>\<open>
  const [audioBlob, setAudioBlob] = useState(null);
  const [playing, setPlaying] = useState(false);
  ...
  <Waveform audioBlob={audioBlob} playing={playing} onFinish={() => setPlaying(false)} />
  <button onClick={() => setPlaying(p => !p)} disabled={!audioBlob}>
  \<close>

  A \<open>WaveSurfer\<close> player is modelled by what the component can tell of it: whether it
  was destroyed, the URL it loaded, whether it plays, and the \<open>onFinish\<close> its
  \<open>finish\<close> listener calls. Of the library the model takes that \<open>load\<close> stops
  playback, that \<open>destroy\<close> stops it and removes the listeners, and that only a player
  that plays and was not destroyed emits \<open>finish\<close>. Blobs, URLs and \<open>onFinish\<close>
  closures are told apart by number, as React compares them by identity.
\<close>

record wavesurfer =
  destroyed :: bool
  loadedUrl :: "nat option"
  isPlaying :: bool
  finishListener :: "nat option option"







text \<open>
  The component: every player it has created (a player's index is its identity), the
  cell \<open>wavesurfer.current\<close>, the URL the pending cleanup of the second effect will
  revoke, the blob behind each URL created, the URLs revoked, and the props of the last
  commit, against which React compares the dependencies.
\<close>

record waveform_props =
  p_audioBlob :: "nat option"
  p_playing :: bool
  p_onFinish :: "nat option"

record waveform =
  instances :: "wavesurfer list"
  wavesurfer_current :: "nat option"
  fileUrl :: "nat option"
  urls :: "nat list"
  revoked :: "nat list"
  lastProps :: "waveform_props option"
















text \<open>Destroyed players stay destroyed from \<open>w\<close> to \<open>w'\<close>.\<close>

definition keeps_destroyed :: "waveform \<Rightarrow> waveform \<Rightarrow> bool" where
  "keeps_destroyed w w' \<longleftrightarrow>
     length (instances w) \<le> length (instances w') \<and>
     (\<forall>j<length (instances w). destroyed (instances w ! j) \<longrightarrow> destroyed (instances w' ! j))"



section \<open>The encoder: proofs\<close>

subsection \<open>Facts about \<open>ToInt16\<close>\<close>

lemma ToInt16_range: "- (2 ^ 15) \<le> ToInt16 n \<and> ToInt16 n < 2 ^ 15"
proof (cases n)
  case (Num x)
  have "0 \<le> js_truncate x mod 65536" "js_truncate x mod 65536 < 65536"
    by simp_all
  then show ?thesis
    using Num by (auto simp: ToInt16_def Let_def)
qed (simp_all add: ToInt16_def)

lemma ToInt16_Num: "ToInt16 (Num x) = (js_truncate x + 32768) mod 65536 - 32768"
proof -
  define m where "m = js_truncate x mod 65536"
  have m: "0 \<le> m" "m < 65536" by (simp_all add: m_def)
  have "(js_truncate x + 32768) mod 65536 = (m + 32768) mod 65536"
    unfolding m_def by (simp add: mod_add_left_eq)
  also have "\<dots> = (if 32768 \<le> m then m - 32768 else m + 32768)"
  proof (cases "32768 \<le> m")
    case True
    have "m + 32768 = m - 32768 + 65536" by simp
    then have "(m + 32768) mod 65536 = (m - 32768 + 65536) mod 65536" by (rule arg_cong)
    also have "\<dots> = (m - 32768) mod 65536" by (simp only: mod_add_self2)
    also have "\<dots> = m - 32768" using True m by (intro mod_pos_pos_trivial) simp_all
    finally show ?thesis using True by simp
  next
    case False
    then have "(m + 32768) mod 65536 = m + 32768"
      using m by (intro mod_pos_pos_trivial) simp_all
    then show ?thesis using False by simp
  qed
  finally show ?thesis
    by (simp add: ToInt16_def Let_def m_def)
qed

lemma sint_ToInt16: "sint (word_of_int (ToInt16 n) :: 16 word) = ToInt16 n"
proof -
  have "signed_take_bit 15 (ToInt16 n) = ToInt16 n"
    using ToInt16_range [of n] by (simp add: signed_take_bit_int_eq_self)
  then show ?thesis
    by (simp add: sint_sbintrunc')
qed

lemma truncate_small:
  "- 32769 < y \<Longrightarrow> y \<le> 32767 \<Longrightarrow> - 32768 \<le> js_truncate y \<and> js_truncate y \<le> 32767"
  unfolding js_truncate_def
  by (auto simp: le_floor_iff floor_le_iff ceiling_le_iff le_ceiling_iff)

subsection \<open>The loop\<close>

lemma conv_loop_length: "length (conv_loop buffer l i buf) = length buf"
  by (induction buffer l i buf rule: conv_loop.induct) (subst conv_loop.simps, simp)

lemma conv_loop_nth:
  "j < length buf \<Longrightarrow>
   conv_loop buffer l i buf ! j =
     (if i \<le> j \<and> j < l then stored_sample (buffer ! j) else buf ! j)"
proof (induction buffer l i buf rule: conv_loop.induct)
  case (1 buffer l i buf)
  show ?case
  proof (cases "i < l")
    case True
    have "conv_loop buffer l i buf ! j =
          conv_loop buffer l (i + 1) (buf[i := stored_sample (buffer ! i)]) ! j"
      using True by (subst conv_loop.simps) (simp add: stored_sample_def)
    also have "\<dots> = (if i + 1 \<le> j \<and> j < l then stored_sample (buffer ! j)
                      else buf[i := stored_sample (buffer ! i)] ! j)"
      using "1.IH" [OF True] "1.prems" by (simp add: stored_sample_def)
    finally show ?thesis
      using True "1.prems" by (cases "j = i") (auto simp: nth_list_update)
  next
    case False
    then show ?thesis by (subst conv_loop.simps) auto
  qed
qed

lemma convert_length: "length (convertFloat32ToInt16 buffer) = length buffer"
  by (simp add: convertFloat32ToInt16_def Let_def conv_loop_length)

lemma convert_nth:
  "i < length buffer \<Longrightarrow> convertFloat32ToInt16 buffer ! i = stored_sample (buffer ! i)"
  by (simp add: convertFloat32ToInt16_def Let_def conv_loop_nth)

lemma convert_map: "convertFloat32ToInt16 buffer = map stored_sample buffer"
  by (rule nth_equalityI) (simp_all add: convert_length convert_nth)

lemma convert_not_finite:
  "s \<in> {NaN, PosInfinity, NegInfinity} \<Longrightarrow>
   sint (stored_sample s) = (if s = PosInfinity then 32767 else 0)"
  by (auto simp: stored_sample_def ToInt16_def Let_def js_truncate_def)

lemma buffer_length: "length (Int16Array_buffer e ws) = 2 * length ws"
  by (induction ws) (simp_all split: endianness.splits)

lemma buffer_nth_little:
  "i < length ws \<Longrightarrow>
   Int16Array_buffer LittleEndian ws ! (2 * i) = ucast (ws ! i) \<and>
   Int16Array_buffer LittleEndian ws ! (2 * i + 1) = ucast (drop_bit 8 (ws ! i))"
proof (induction ws arbitrary: i)
  case Nil
  then show ?case by simp
next
  case (Cons w ws)
  show ?case
  proof (cases i)
    case 0
    then show ?thesis by simp
  next
    case (Suc k)
    then have "k < length ws" using Cons.prems by simp
    from Cons.IH [OF this] show ?thesis using Suc by simp
  qed
qed

lemma stored_sample_cases:
  "sint (stored_sample s) =
     (case s of
        Num x \<Rightarrow> (js_truncate (min 1 x * 32767) + 32768) mod 65536 - 32768
      | PosInfinity \<Rightarrow> 32767
      | _ \<Rightarrow> 0)"
proof (cases s)
  case (Num x)
  have "sint (stored_sample s) = ToInt16 (Num (min 1 x * 32767))"
    using Num by (simp add: stored_sample_def sint_ToInt16)
  then show ?thesis using Num by (simp add: ToInt16_Num)
next
  case NaN
  then show ?thesis using convert_not_finite [of s] by simp
next
  case PosInfinity
  then show ?thesis using convert_not_finite [of s] by simp
next
  case NegInfinity
  then show ?thesis using convert_not_finite [of s] by simp
qed

lemma no_wrap:
  assumes "- 1 \<le> x"
  shows "(js_truncate (min 1 x * 32767) + 32768) mod 65536 - 32768 = js_truncate (min 1 x * 32767)"
proof -
  from assms have "- 32769 < min 1 x * 32767" "min 1 x * 32767 \<le> 32767"
    by (auto simp: min_def)
  from truncate_small [OF this] show ?thesis by simp
qed

subsection \<open>Claims about the encoder\<close>

text \<open>
  C1, as the specification states it: the output has the length of the input and every
  output sample is \<open>round(min(1, input[i]) * 32767)\<close>, a signed 16-bit little-endian
  integer. The code does not round: storing into the \<open>Int16Array\<close> truncates towards
  zero. At the sample \<open>0.25\<close> the product is \<open>8191.75\<close>; the code stores \<open>8191\<close>, the
  nearest integer is \<open>8192\<close>. Nor does the code choose a byte order: the two bytes of
  \<open>8191 = 0x1FFF\<close> are \<open>FF 1F\<close> on a little-endian platform and \<open>1F FF\<close> on a
  big-endian one.
\<close>

theorem C1_round_counterexample:
  "sint (convertFloat32ToInt16 [Num (1 / 4)] ! 0) = 8191 \<and> spec_encode_sample (1 / 4) = 8192 \<and>
   Int16Array_buffer BigEndian (convertFloat32ToInt16 [Num (1 / 4)]) = [31, 255] \<and>
   Int16Array_buffer LittleEndian (convertFloat32ToInt16 [Num (1 / 4)]) = [255, 31]"
proof -
  have c: "convertFloat32ToInt16 [Num (1 / 4)] = [8191]" by code_simp
  have r: "spec_encode_sample (1 / 4) = 8192" by code_simp
  have u: "(ucast (8191 :: 16 word) :: 8 word) = 255"
    "(ucast (drop_bit 8 (8191 :: 16 word)) :: 8 word) = 31" by code_simp+
  show ?thesis
    unfolding c using r u by simp
qed

text \<open>
  C1, amended: for every input block the output has exactly as many samples as the input
  (twice as many bytes), and for every index \<open>i\<close> the output sample is
  \<open>min(1, input[i]) * 32767\<close> truncated towards zero and wrapped into the signed 16-bit
  range: a finite sample is clamped only at the upper bound \<open>1\<close> (no lower clamp), a
  sample \<open>x \<ge> -1\<close> gives the truncated product itself, \<open>NaN\<close> and \<open>-Infinity\<close> give
  \<open>0\<close> and \<open>Infinity\<close> gives \<open>32767\<close>. The sample lies in the buffer in the platform's
  byte order: on a little-endian platform its low byte is byte \<open>2i\<close> and its high byte
  is byte \<open>2i + 1\<close>.
\<close>

theorem C1_encoder_truncates:
  "length (convertFloat32ToInt16 buffer) = length buffer \<and>
   length (Int16Array_buffer e (convertFloat32ToInt16 buffer)) = 2 * length buffer \<and>
   (\<forall>i<length buffer.
      sint (convertFloat32ToInt16 buffer ! i) =
        (case buffer ! i of
           Num x \<Rightarrow> (js_truncate (min 1 x * 32767) + 32768) mod 65536 - 32768
         | PosInfinity \<Rightarrow> 32767
         | _ \<Rightarrow> 0) \<and>
      (\<forall>x. buffer ! i = Num x \<and> - 1 \<le> x \<longrightarrow>
           sint (convertFloat32ToInt16 buffer ! i) = js_truncate (min 1 x * 32767)) \<and>
      Int16Array_buffer LittleEndian (convertFloat32ToInt16 buffer) ! (2 * i) =
        ucast (convertFloat32ToInt16 buffer ! i) \<and>
      Int16Array_buffer LittleEndian (convertFloat32ToInt16 buffer) ! (2 * i + 1) =
        ucast (drop_bit 8 (convertFloat32ToInt16 buffer ! i)))"
proof -
  have a: "length (convertFloat32ToInt16 buffer) = length buffer"
    by (rule convert_length)
  have b: "length (Int16Array_buffer e (convertFloat32ToInt16 buffer)) = 2 * length buffer"
    by (simp add: buffer_length convert_length)
  have c: "sint (convertFloat32ToInt16 buffer ! i) =
        (case buffer ! i of
           Num x \<Rightarrow> (js_truncate (min 1 x * 32767) + 32768) mod 65536 - 32768
         | PosInfinity \<Rightarrow> 32767
         | _ \<Rightarrow> 0)" if "i < length buffer" for i
    using that by (simp add: convert_nth stored_sample_cases)
  have d: "sint (convertFloat32ToInt16 buffer ! i) = js_truncate (min 1 x * 32767)"
    if "i < length buffer" "buffer ! i = Num x" "- 1 \<le> x" for i x
    using c [OF that(1)] that(2) no_wrap [OF that(3)] by simp
  have f: "Int16Array_buffer LittleEndian (convertFloat32ToInt16 buffer) ! (2 * i) =
        ucast (convertFloat32ToInt16 buffer ! i) \<and>
      Int16Array_buffer LittleEndian (convertFloat32ToInt16 buffer) ! (2 * i + 1) =
        ucast (drop_bit 8 (convertFloat32ToInt16 buffer ! i))" if "i < length buffer" for i
    using that by (intro buffer_nth_little) (simp add: convert_length)
  show ?thesis
    using a b c d f by blast
qed

text \<open>
  C1, at the block of \<open>NaN\<close> and \<open>0.5\<close>: at index \<open>1\<close> the product \<open>16383.5\<close> is
  stored as \<open>16383 = 0x3FFF\<close>, the bytes \<open>FF 3F\<close> at the positions \<open>2\<close> and \<open>3\<close>.
\<close>

theorem C1_encoder_truncates_witness:
  "(1::nat) < length [NaN, Num (1 / 2)] \<and>
   length (convertFloat32ToInt16 [NaN, Num (1 / 2)]) = 2 \<and>
   length (Int16Array_buffer LittleEndian (convertFloat32ToInt16 [NaN, Num (1 / 2)])) = 4 \<and>
   sint (convertFloat32ToInt16 [NaN, Num (1 / 2)] ! 1) = 16383 \<and>
   Int16Array_buffer LittleEndian (convertFloat32ToInt16 [NaN, Num (1 / 2)]) ! 2 = 255 \<and>
   Int16Array_buffer LittleEndian (convertFloat32ToInt16 [NaN, Num (1 / 2)]) ! 3 = 63"
proof -
  have t: "js_truncate (min 1 (1 / 2) * 32767) = 16383" by code_simp
  have c: "convertFloat32ToInt16 [NaN, Num (1 / 2)] ! 1 = 16383"
    by code_simp
  have u: "(ucast (16383 :: 16 word) :: 8 word) = 255"
    "(ucast (drop_bit 8 (16383 :: 16 word)) :: 8 word) = 63" by code_simp+
  have h: "(1::nat) < length [NaN, Num (1 / 2)]" by simp
  from C1_encoder_truncates [of "[NaN, Num (1 / 2)]" LittleEndian] h
  have "sint (convertFloat32ToInt16 [NaN, Num (1 / 2)] ! 1) =
          (case [NaN, Num (1 / 2)] ! 1 of
             Num x \<Rightarrow> (js_truncate (min 1 x * 32767) + 32768) mod 65536 - 32768
           | PosInfinity \<Rightarrow> 32767
           | _ \<Rightarrow> 0) \<and>
        Int16Array_buffer LittleEndian (convertFloat32ToInt16 [NaN, Num (1 / 2)]) ! (2 * 1) =
          ucast (convertFloat32ToInt16 [NaN, Num (1 / 2)] ! 1) \<and>
        Int16Array_buffer LittleEndian (convertFloat32ToInt16 [NaN, Num (1 / 2)]) ! (2 * 1 + 1) =
          ucast (drop_bit 8 (convertFloat32ToInt16 [NaN, Num (1 / 2)] ! 1)) \<and>
        length (convertFloat32ToInt16 [NaN, Num (1 / 2)]) = length [NaN, Num (1 / 2)] \<and>
        length (Int16Array_buffer LittleEndian (convertFloat32ToInt16 [NaN, Num (1 / 2)])) =
          2 * length [NaN, Num (1 / 2)]"
    by blast
  then show ?thesis
    unfolding c u using h by (simp add: t)
qed

text \<open>
  C10: a sample below \<open>-1\<close> is not saturated to \<open>-32768\<close>. At \<open>-1.5\<close> the product is
  \<open>-49150.5\<close>, truncated to \<open>-49150\<close>, and \<open>-49150 + 65536 = 16386\<close>: the encoded
  sample is positive. For every finite sample the stored value is the truncated product
  reduced modulo \<open>2^16\<close> into the signed range.
\<close>

theorem C10_negative_sample_wraps:
  "(- 3 / 2 :: rat) < - 1 \<and>
   js_truncate (min 1 (- 3 / 2) * 32767) = - 49150 \<and>
   sint (convertFloat32ToInt16 [Num (- 3 / 2)] ! 0) = 16386 \<and>
   sint (convertFloat32ToInt16 [Num (- 3 / 2)] ! 0) \<noteq> - 32768 \<and>
   0 < sint (convertFloat32ToInt16 [Num (- 3 / 2)] ! 0) \<and>
   (\<forall>x. sint (convertFloat32ToInt16 [Num x] ! 0) =
      (js_truncate (min 1 x * 32767) + 2 ^ 15) mod 2 ^ 16 - 2 ^ 15)"
proof -
  have a: "(- 3 / 2 :: rat) < - 1" by simp
  have b: "js_truncate (min 1 (- 3 / 2) * 32767) = - 49150" by code_simp
  have c: "sint (convertFloat32ToInt16 [Num x] ! 0) =
             (js_truncate (min 1 x * 32767) + 2 ^ 15) mod 2 ^ 16 - 2 ^ 15" for x
  proof -
    have "sint (convertFloat32ToInt16 [Num x] ! 0) = ToInt16 (Num (min 1 x * 32767))"
      by (simp add: convert_nth stored_sample_def sint_ToInt16)
    then show ?thesis
      by (simp add: ToInt16_Num)
  qed
  have d: "sint (convertFloat32ToInt16 [Num (- 3 / 2)] ! 0) = 16386"
    unfolding c b by simp
  show ?thesis
    using a b c d by simp
qed

section \<open>Voice selection: proofs\<close>

lemma voice_lookup:
  "k \<notin> set (map fst Object_prototype) \<Longrightarrow>
   playTTS_voice k = (case map_of voiceMap k of Some v \<Rightarrow> v | None \<Rightarrow> Str ''en-US-JennyNeural'')"
proof -
  assume "k \<notin> set (map fst Object_prototype)"
  then have "map_of Object_prototype k = None"
    by (simp add: map_of_eq_None_iff)
  then show ?thesis
    by (auto simp: playTTS_voice_def lookup_object_def voiceMap_def Let_def)
qed

text \<open>
  C9: for every target language code the lookup should give the mapped voice, and the
  default voice \<open>en-US-JennyNeural\<close> for a code that is not mapped. The code falls
  back with \<open>||\<close>, which tests \<open>voiceMap[targetLang]\<close>, and that expression also
  finds what \<open>voiceMap\<close> inherits. The code \<open>constructor\<close> is no key of the map, yet
  the voice chosen for it is the function \<open>Object\<close>, not the default voice. The codes
  \<open>fr\<close> (not mapped) and \<open>hi\<close> (mapped) resolve as the claim says, and the lookup
  never throws.
\<close>

theorem C9_inherited_name_voice:
  "map_of voiceMap ''constructor'' = None \<and>
   playTTS_voice ''constructor'' = Function ''Object'' \<and>
   playTTS_voice ''constructor'' \<noteq> Str ''en-US-JennyNeural'' \<and>
   playTTS_voice ''fr'' = Str ''en-US-JennyNeural'' \<and>
   playTTS_voice ''hi'' = Str ''hi-IN-SwaraNeural''"
  by (simp add: playTTS_voice_def lookup_object_def voiceMap_def Object_prototype_def)

section \<open>The transcript: proofs\<close>

lemma lookup_own: "map_of props k = Some v \<Longrightarrow> lookup_object props k = v"
  by (simp add: lookup_object_def)

lemma message_textD:
  "message_text v d = Some t \<Longrightarrow>
   \<exists>props. d = Obj props \<and> read_field d (text_key v) = Inr (Str t)"
  by (auto simp: message_text_def lookup_own split: jsval.splits option.splits)

lemma apply_message_append:
  assumes "message_text App_js d = Some t" and "transcribedText s = Str p"
  shows "transcribedText (snd (apply_message App_js ns s d)) =
           Str (if t = '''' then p else if p = '''' then t else p @ '' '' @ t)"
proof -
  from message_textD [OF assms(1)] obtain props where
    d: "d = Obj props" and r: "read_field d ''text'' = Inr (Str t)"
    by (auto simp: text_key_def)
  show ?thesis
    using r assms(2)
    by (simp add: apply_message_def append_text_def Let_def split: sum.splits)
qed

lemma apply_message_replace:
  assumes "message_text Part_000 d = Some t"
  shows "snd (apply_message Part_000 ns s d) =
           (if t = '''' then s else s\<lparr>transcribedText := Str t\<rparr>)"
proof -
  from message_textD [OF assms(1)] have r: "read_field d ''transcript'' = Inr (Str t)"
    by (auto simp: text_key_def)
  show ?thesis
    using r by (simp add: apply_message_def)
qed

lemma space_join_Cons:
  "space_join (t # ts) = (if ts = [] then t else t @ '' '' @ space_join ts)"
  by (cases ts) simp_all

lemma append_fold:
  assumes "map (message_text App_js) ds = map Some ts" and "transcribedText s = Str p"
  shows "transcribedText (apply_messages App_js ns s ds) = Str (space_join (nonempty (p # ts)))"
  using assms
proof (induction ds arbitrary: s p ts)
  case Nil
  then show ?case by (simp add: nonempty_def)
next
  case (Cons d ds)
  then obtain t ts' where ts: "ts = t # ts'" and d: "message_text App_js d = Some t"
    and rest: "map (message_text App_js) ds = map Some ts'"
    by (cases ts) auto
  define p' where "p' = (if t = '''' then p else if p = '''' then t else p @ '' '' @ t)"
  have "transcribedText (snd (apply_message App_js ns s d)) = Str p'"
    using apply_message_append [OF d Cons.prems(2)] by (simp add: p'_def)
  from Cons.IH [OF rest this]
  have "transcribedText (apply_messages App_js ns s (d # ds)) =
          Str (space_join (nonempty (p' # ts')))"
    by simp
  moreover have "space_join (nonempty (p' # ts')) = space_join (nonempty (p # t # ts'))"
    by (simp add: p'_def nonempty_def space_join_Cons)
  ultimately show ?case by (simp add: ts)
qed

lemma replace_fold:
  assumes "map (message_text Part_000) ds = map Some ts"
  shows "transcribedText (apply_messages Part_000 ns s ds) =
           (if nonempty ts = [] then transcribedText s else Str (last (nonempty ts)))"
  using assms
proof (induction ds arbitrary: s ts)
  case Nil
  then show ?case by (simp add: nonempty_def)
next
  case (Cons d ds)
  then obtain t ts' where ts: "ts = t # ts'" and d: "message_text Part_000 d = Some t"
    and rest: "map (message_text Part_000) ds = map Some ts'"
    by (cases ts) auto
  show ?case
    using Cons.IH [OF rest, of "snd (apply_message Part_000 ns s d)"]
    by (simp add: ts apply_message_replace [OF d] nonempty_def)
qed

text \<open>
  C2, as the specification states it: under the append policy the accumulated text is
  the space-joined concatenation of every message's text, under the replace policy the
  text of the last message. Both handlers skip a message whose text is empty. After the
  texts \<open>a\<close>, the empty text and \<open>b\<close>, the appending handler holds \<open>a b\<close>, where
  the join of the three texts has two spaces; after \<open>a\<close> and the empty text, the
  replacing handler still holds \<open>a\<close>, not the last text.
\<close>

theorem C2_empty_text_counterexample:
  "transcribedText (apply_messages App_js (\<lambda>n. '''') initial
      [Obj [(''text'', Str ''a'')], Obj [(''text'', Str '''')], Obj [(''text'', Str ''b'')]])
     = Str ''a b'' \<and>
   space_join [''a'', '''', ''b''] = ''a  b'' \<and>
   transcribedText (apply_messages Part_000 (\<lambda>n. '''') initial
      [Obj [(''transcript'', Str ''a'')], Obj [(''transcript'', Str '''')]])
     = Str ''a'' \<and>
   last [''a'', ''''] = ''''"
  by (simp add: apply_message_def initial_def lookup_object_def append_text_def
      status_template_def Object_prototype_def)

text \<open>
  C2, amended: for every finite sequence of transcript messages applied to an empty
  transcript, under the append policy the accumulated text is the space-joined
  concatenation, in arrival order, of the texts that are not empty; under the replace
  policy it is the last text that is not empty, and stays empty when there is none.
\<close>

theorem C2_transcript_joins_nonempty_texts:
  assumes "map (message_text v) ds = map Some ts" and "transcribedText s = Str ''''"
  shows "transcribedText (apply_messages v ns s ds) =
           (case v of
              App_js \<Rightarrow> Str (space_join (nonempty ts))
            | Part_000 \<Rightarrow> if nonempty ts = [] then Str '''' else Str (last (nonempty ts)))"
proof (cases v)
  case App_js
  then show ?thesis
    using append_fold [of ds ts s "''''" ns] assms by (simp add: nonempty_def)
next
  case Part_000
  then show ?thesis
    using replace_fold [of ds ts ns s] assms by simp
qed

text \<open>
  C2, at the messages \<open>hello\<close> and \<open>world\<close> under the append policy.
\<close>

theorem C2_transcript_joins_nonempty_texts_witness:
  "map (message_text App_js) [Obj [(''text'', Str ''hello'')], Obj [(''text'', Str ''world'')]]
     = map Some [''hello'', ''world''] \<and>
   transcribedText initial = Str '''' \<and>
   transcribedText (apply_messages App_js (\<lambda>n. '''') initial
      [Obj [(''text'', Str ''hello'')], Obj [(''text'', Str ''world'')]]) = Str ''hello world''"
  using C2_transcript_joins_nonempty_texts [of App_js "[Obj [(''text'', Str ''hello'')], Obj [(''text'', Str ''world'')]]"
      "[''hello'', ''world'']" initial "\<lambda>n. ''''"]
  by (simp add: message_text_def text_key_def initial_def nonempty_def)

text \<open>
  The same two messages as payloads, through \<open>startRecording\<close>, the opening of the
  socket and \<open>JSON.parse\<close>.
\<close>

lemma scenario_hello_world:
  "transcribedText (run App_js env0 initial
      [StartRecording (Connecting [Live]), WsOpen Current,
       WsMessage Current ''{\"text\":\"hello\"}'', WsMessage Current ''{\"text\":\"world\"}''])
     = Str ''hello world''"
  by (simp add: startRecording_def initial_def onopen_def onmessage_def env0_def
      apply_message_def lookup_object_def Object_prototype_def append_text_def
      status_template_def)

text \<open>
  C8, as the specification states it: after any message, the last detected language and
  confidence are that message's, whatever its text and whatever the merge policy. The
  appending handler reads the two fields only inside \<open>if (data.text)\<close>: a message
  with an empty text and a language leaves the whole state as it was. The replacing
  handler never reads them: a message with a transcript and a language changes the
  transcript and nothing else.
\<close>

theorem C8_metadata_dropped_counterexample:
  "snd (apply_message App_js (\<lambda>n. ''0.9'') initial
     (Obj [(''text'', Str ''''), (''detected_lang'', Str ''en''),
           (''confidence'', Number (Num (9 / 10)))])) = initial \<and>
   snd (apply_message Part_000 (\<lambda>n. ''0.9'') initial
     (Obj [(''transcript'', Str ''hola''), (''detected_lang'', Str ''es''),
           (''confidence'', Number (Num (9 / 10)))])) = initial\<lparr>transcribedText := Str ''hola''\<rparr>"
  by (simp add: apply_message_def lookup_object_def Object_prototype_def)

text \<open>
  C8, amended: under the append policy a message with a text that is not empty sets the
  status to \<open>Detected language: L (confidence: C)\<close>, where \<open>L\<close> and \<open>C\<close> are that
  message's \<open>detected_lang\<close> and \<open>confidence\<close> (last write wins; an absent field is
  printed \<open>undefined\<close>), and a message with an empty text changes nothing; under the
  replace policy no message changes the status.
\<close>

theorem C8_metadata_follows_text:
  assumes "map_of props ''text'' = Some (Str t)"
    and "ToString ns (lookup_object props ''detected_lang'') = Inr l"
    and "ToString ns (lookup_object props ''confidence'') = Inr c"
  shows "status (snd (apply_message App_js ns s (Obj props))) =
           (if t = '''' then status s
            else ''Detected language: '' @ l @ '' (confidence: '' @ c @ '')'') \<and>
         (t = '''' \<longrightarrow> snd (apply_message App_js ns s (Obj props)) = s) \<and>
         (\<forall>d. status (snd (apply_message Part_000 ns s d)) = status s)"
proof -
  have r: "lookup_object props ''text'' = Str t"
    using assms(1) by (rule lookup_own)
  have st: "status_template ns (Obj props) =
              Inr (''Detected language: '' @ l @ '' (confidence: '' @ c @ '')'')"
    using assms(2,3) by (simp add: status_template_def)
  have a: "status (snd (apply_message App_js ns s (Obj props))) =
           (if t = '''' then status s
            else ''Detected language: '' @ l @ '' (confidence: '' @ c @ '')'')"
    by (cases "append_text ns (transcribedText s) (Str t)")
       (simp_all add: apply_message_def r st Let_def)
  have b: "snd (apply_message App_js ns s (Obj props)) = s" if "t = ''''"
    using that by (simp add: apply_message_def r)
  have c: "status (snd (apply_message Part_000 ns s d)) = status s" for d
    by (cases "read_field d ''transcript''") (simp_all add: apply_message_def)
  show ?thesis using a b c by simp
qed

text \<open>
  C8, at a message with the text \<open>hi\<close>, the language \<open>en\<close> and no confidence.
\<close>

theorem C8_metadata_follows_text_witness:
  "map_of [(''text'', Str ''hi''), (''detected_lang'', Str ''en'')] ''text'' = Some (Str ''hi'') \<and>
   status (snd (apply_message App_js (\<lambda>n. ''0.9'') initial
     (Obj [(''text'', Str ''hi''), (''detected_lang'', Str ''en'')]))) =
     ''Detected language: en (confidence: undefined)''"
  using C8_metadata_follows_text [of "[(''text'', Str ''hi''), (''detected_lang'', Str ''en'')]" "''hi''"
      "\<lambda>n. ''0.9''" "''en''" "''undefined''" initial]
  by (simp add: lookup_object_def Object_prototype_def)

text \<open>
  C4, as the specification states it: a payload that is not JSON is dropped with a
  reported error and processing it never raises an unhandled failure. The handler calls
  \<open>JSON.parse\<close> outside any \<open>try\<close>: on the payload \<open>not json\<close> the
  \<open>SyntaxError\<close> leaves the handler uncaught.
\<close>

theorem C4_unhandled_counterexample:
  "fst (onmessage App_js env0 initial ''not json'') = Some SyntaxError"
  by (simp add: onmessage_def env0_def)

text \<open>
  C4, amended: for every payload that \<open>JSON.parse\<close> rejects, the message handler
  throws the \<open>SyntaxError\<close> uncaught and changes nothing: the transcript, the status,
  the recording flag and the socket are as before, so the session goes on.
\<close>

theorem C4_parse_failure_escapes:
  assumes "JSON_parse env payload = None"
  shows "onmessage v env s payload = (Some SyntaxError, s) \<and>
         (\<forall>sock. socketRef s = Some sock \<and> readyState sock = OPEN \<longrightarrow>
            step v env s (WsMessage Current payload) = (Some SyntaxError, s))"
  using assms by (simp add: onmessage_def)

text \<open>
  C4, at the truncated payload \<open>{text:\<close> under the replace policy.
\<close>

theorem C4_parse_failure_escapes_witness:
  "JSON_parse env0 ''{text:'' = None \<and>
   onmessage Part_000 env0 initial ''{text:'' = (Some SyntaxError, initial)"
  using C4_parse_failure_escapes [of env0 "''{text:''" Part_000 initial]
  by (simp add: env0_def)

section \<open>Stopping: proofs\<close>

lemma same_socketRef: "socketRef s = x \<Longrightarrow> s\<lparr>socketRef := x\<rparr> = s"
  by (cases s) simp

lemma same_mediaStreamRef: "mediaStreamRef s = x \<Longrightarrow> s\<lparr>mediaStreamRef := x\<rparr> = s"
  by (cases s) simp

lemma same_mediaRecorderRef: "mediaRecorderRef s = x \<Longrightarrow> s\<lparr>mediaRecorderRef := x\<rparr> = s"
  by (cases s) simp

lemma same_processor: "processor k = x \<Longrightarrow> k\<lparr>processor := x\<rparr> = k"
  by (cases k) simp

lemma same_audioContext: "audioContext k = x \<Longrightarrow> k\<lparr>audioContext := x\<rparr> = k"
  by (cases k) simp

lemma ws_close_fields [simp]:
  "processor (ws_close k) = processor k"
  "audioContext (ws_close k) = audioContext k"
  "transmitted (ws_close k) = transmitted k"
  by (simp_all add: ws_close_def)

lemma stop_step1:
  "(case socketRef s of None \<Rightarrow> s | Some sock \<Rightarrow> s\<lparr>socketRef := Some (ws_close sock)\<rparr>) =
     s\<lparr>socketRef := map_option ws_close (socketRef s)\<rparr>"
  by (cases "socketRef s") (simp_all add: same_socketRef)

lemma stop_step2:
  "(case mediaStreamRef s of None \<Rightarrow> s
    | Some tracks \<Rightarrow> s\<lparr>mediaStreamRef := Some (map (\<lambda>track. Ended) tracks)\<rparr>) =
     s\<lparr>mediaStreamRef := map_option (map (\<lambda>track. Ended)) (mediaStreamRef s)\<rparr>"
  by (cases "mediaStreamRef s") (simp_all add: same_mediaStreamRef)

lemma stop_step3:
  "(case socketRef s of None \<Rightarrow> s
    | Some sock \<Rightarrow>
        (case processor sock of None \<Rightarrow> s
         | Some p \<Rightarrow> s\<lparr>socketRef := Some (sock\<lparr>processor := Some Disconnected\<rparr>)\<rparr>)) =
     s\<lparr>socketRef := map_option
          (\<lambda>sock. sock\<lparr>processor := map_option (\<lambda>p. Disconnected) (processor sock)\<rparr>)
          (socketRef s)\<rparr>"
proof (cases "socketRef s")
  case None
  then show ?thesis by (simp add: same_socketRef)
next
  case (Some sock)
  then show ?thesis
    by (cases "processor sock") (simp_all add: same_socketRef same_processor)
qed

lemma stop_step4:
  "(case socketRef s of None \<Rightarrow> s
    | Some sock \<Rightarrow>
        (case audioContext sock of None \<Rightarrow> s
         | Some Running \<Rightarrow> s\<lparr>socketRef := Some (sock\<lparr>audioContext := Some Closed\<rparr>)\<rparr>
         | Some Closed \<Rightarrow> s\<lparr>rejections := rejections s @ [InvalidStateError]\<rparr>)) =
     s\<lparr>socketRef := map_option
          (\<lambda>sock. sock\<lparr>audioContext := map_option (\<lambda>c. Closed) (audioContext sock)\<rparr>)
          (socketRef s),
        rejections := rejections s @ (if closed_context s then [InvalidStateError] else [])\<rparr>"
proof (cases "socketRef s")
  case None
  then show ?thesis by (cases s) (simp add: closed_context_def)
next
  case (Some sock)
  show ?thesis
  proof (cases "audioContext sock")
    case None
    then show ?thesis
      using Some by (cases s) (simp add: closed_context_def same_audioContext)
  next
    case (Some c)
    then show ?thesis
      using \<open>socketRef s = Some sock\<close>
      by (cases s; cases c) (simp_all add: closed_context_def same_audioContext)
  qed
qed

lemma stop_step5:
  "(case mediaRecorderRef s of None \<Rightarrow> s
    | Some st \<Rightarrow> if st \<noteq> Inactive then s\<lparr>mediaRecorderRef := Some Inactive\<rparr> else s) =
     s\<lparr>mediaRecorderRef := map_option (\<lambda>st. Inactive) (mediaRecorderRef s)\<rparr>"
  by (cases "mediaRecorderRef s") (simp_all add: same_mediaRecorderRef)

lemma stopRecording_eq:
  "stopRecording s =
     (None, s\<lparr>socketRef := map_option stopped_socket (socketRef s),
               mediaStreamRef := map_option (map (\<lambda>track. Ended)) (mediaStreamRef s),
               mediaRecorderRef := map_option (\<lambda>st. Inactive) (mediaRecorderRef s),
               rejections := rejections s @ (if closed_context s then [InvalidStateError] else []),
               recording := False, status := ''Stopped streaming.''\<rparr>)"
  unfolding stopRecording_def Let_def stop_step1 stop_step2 stop_step3 stop_step4 stop_step5
  by (cases "socketRef s")
     (simp_all add: closed_context_def stopped_socket_def option.map_comp comp_def)

lemma stopped_socket_idem:
  "stopped_socket (stopped_socket k) = stopped_socket k"
  by (cases k; cases "readyState k"; cases "processor k"; cases "audioContext k")
     (simp_all add: stopped_socket_def ws_close_def)

lemma stop_no_throw: "fst (stopRecording s) = None"
  by (simp add: stopRecording_eq)

lemma stop_never_started:
  "never_started s \<Longrightarrow>
   stopRecording s = (None, s\<lparr>recording := False, status := ''Stopped streaming.''\<rparr>)"
  by (cases s) (simp add: stopRecording_eq never_started_def closed_context_def)

lemma stop_twice:
  "stopRecording (snd (stopRecording s)) =
     (None, (snd (stopRecording s))
        \<lparr>rejections := rejections (snd (stopRecording s)) @
                        (if has_context s then [InvalidStateError] else [])\<rparr>)"
proof -
  have c: "closed_context (snd (stopRecording s)) = has_context s"
    by (cases "socketRef s")
       (auto simp: stopRecording_eq closed_context_def has_context_def stopped_socket_def)
  show ?thesis
    by (subst stopRecording_eq [of "snd (stopRecording s)"], unfold c)
       (cases s, simp add: stopRecording_eq option.map_comp comp_def stopped_socket_idem
          map_idI)
qed

lemma stop_socket:
  "socketRef s = Some sock \<Longrightarrow>
   \<exists>sock'. socketRef (snd (stopRecording s)) = Some sock' \<and>
           transmitted sock' = transmitted sock \<and>
           readyState sock' \<noteq> OPEN \<and> readyState sock' \<noteq> CONNECTING"
  by (cases "readyState sock") (simp_all add: stopRecording_eq stopped_socket_def ws_close_def)

lemma stopRecording_on_idle:
  "fst (stopRecording s) = None \<and>
   \<not> recording (snd (stopRecording s)) \<and>
   status (snd (stopRecording s)) = ''Stopped streaming.'' \<and>
   (never_started s \<longrightarrow> snd (stopRecording s) = s\<lparr>status := ''Stopped streaming.''\<rparr>) \<and>
   stopRecording (snd (stopRecording s)) =
     (None, (snd (stopRecording s))
        \<lparr>rejections := rejections (snd (stopRecording s)) @
                        (if has_context s then [InvalidStateError] else [])\<rparr>) \<and>
   (mediaRecorderRef s = None \<longrightarrow> stopRecording_v1 stop_inactive s = (None, s))"
proof -
  have "snd (stopRecording s) = s\<lparr>status := ''Stopped streaming.''\<rparr>" if "never_started s"
    using that stop_never_started [OF that] by (cases s) (simp add: never_started_def)
  then show ?thesis
    using stop_twice [of s] by (simp add: stopRecording_eq stopRecording_v1_def)
qed

text \<open>
  C5: \<open>stop()\<close> on an idle session should do nothing and not fail, also when it is
  called twice in a row. \<open>stopRecording\<close> throws nothing, and its guards make the
  repeated releases harmless, but for one: the audio context is guarded by its existence
  only, where the recorder beside it is guarded by its state. A second stop therefore
  calls \<open>close()\<close> on the closed context again, and the promise it returns is rejected
  with nothing to handle it. One stop after a started session rejects no promise; the
  second does. The second stop can be reached through the buttons: two starts, the second
  socket opens, stop, then the socket of the first start opens and sets the flag again,
  which shows the Stop button.
\<close>

theorem C5_second_stop_rejects:
  "fst (stopRecording (run App_js env0 initial
      [StartRecording (Connecting [Live]), WsOpen Current, StopRecording])) = None \<and>
   rejections (run App_js env0 initial
      [StartRecording (Connecting [Live]), WsOpen Current, StopRecording]) = [] \<and>
   rejections (run App_js env0 initial
      [StartRecording (Connecting [Live]), WsOpen Current, StopRecording, StopRecording])
     = [InvalidStateError] \<and>
   recording (run App_js env0 initial
      [StartRecording (Connecting [Live]), StartRecording (Connecting [Live]), WsOpen Current,
       StopRecording, WsOpen Superseded]) = True \<and>
   rejections (run App_js env0 initial
      [StartRecording (Connecting [Live]), StartRecording (Connecting [Live]), WsOpen Current,
       StopRecording, WsOpen Superseded]) = [] \<and>
   rejections (run App_js env0 initial
      [StartRecording (Connecting [Live]), StartRecording (Connecting [Live]), WsOpen Current,
       StopRecording, WsOpen Superseded, StopRecording]) = [InvalidStateError]"
  by (simp add: initial_def startRecording_def onopen_def
      stopRecording_eq closed_context_def stopped_socket_def ws_close_def)

section \<open>Sending and the recording flag: proofs\<close>

lemma inv_initial: "audio_inv initial"
  by (simp add: audio_inv_def initial_def)

lemma inv_startRecording: "audio_inv s \<Longrightarrow> audio_inv (snd (startRecording s r))"
  by (cases r) (auto simp: audio_inv_def startRecording_def)

lemma inv_stopRecording: "audio_inv s \<Longrightarrow> audio_inv (snd (stopRecording s))"
  by (cases "socketRef s")
     (auto simp: audio_inv_def stopRecording_eq stopped_socket_def ws_close_def)

lemma apply_message_frame:
  "socketRef (snd (apply_message v ns s d)) = socketRef s \<and>
   superseded (snd (apply_message v ns s d)) = superseded s \<and>
   recording (snd (apply_message v ns s d)) = recording s \<and>
   encodeLog (snd (apply_message v ns s d)) = encodeLog s"
proof (cases v)
  case App_js
  show ?thesis
  proof (cases "read_field d ''text''")
    case (Inl e)
    then show ?thesis using App_js by (simp add: apply_message_def)
  next
    case (Inr t)
    then show ?thesis
      using App_js
      by (cases "append_text ns (transcribedText s) t"; cases "status_template ns d")
         (simp_all add: apply_message_def Let_def)
  qed
next
  case Part_000
  then show ?thesis
    by (cases "read_field d ''transcript''") (simp_all add: apply_message_def)
qed

lemma onmessage_frame:
  "socketRef (snd (onmessage v env s p)) = socketRef s \<and>
   superseded (snd (onmessage v env s p)) = superseded s \<and>
   recording (snd (onmessage v env s p)) = recording s \<and>
   encodeLog (snd (onmessage v env s p)) = encodeLog s"
  by (cases "JSON_parse env p") (simp_all add: onmessage_def apply_message_frame)

lemma onerror_frame:
  "socketRef (snd (onerror v ns s m)) = socketRef s \<and>
   superseded (snd (onerror v ns s m)) = superseded s \<and>
   recording (snd (onerror v ns s m)) = recording s \<and>
   encodeLog (snd (onerror v ns s m)) = encodeLog s"
  by (cases v; cases "ToString ns m") (simp_all add: onerror_def)

lemma onaudioprocess_cases:
  assumes "socketRef s = Some sock"
  shows "onaudioprocess v s inputData =
     (if readyState sock = OPEN
      then (None, s\<lparr>encodeLog := encodeLog s @ [convertFloat32ToInt16 inputData],
                     socketRef := Some (sock\<lparr>transmitted :=
                        transmitted sock @ [convertFloat32ToInt16 inputData]\<rparr>)\<rparr>)
      else (None, s\<lparr>encodeLog := (case v of
                       App_js \<Rightarrow> encodeLog s @ [convertFloat32ToInt16 inputData]
                     | Part_000 \<Rightarrow> encodeLog s)\<rparr>))"
  using assms by (cases v) (simp_all add: onaudioprocess_def Let_def ws_send_def)

lemma enabled_socket:
  "audio_inv s \<Longrightarrow> audio_enabled s \<Longrightarrow> \<exists>sock. socketRef s = Some sock"
  by (cases "socketRef s") (auto simp: audio_inv_def audio_enabled_def)

lemma inv_onaudioprocess:
  assumes "audio_inv s" and "audio_enabled s"
  shows "audio_inv (snd (onaudioprocess v s b))"
proof -
  from enabled_socket [OF assms] obtain sock where sock: "socketRef s = Some sock" ..
  show ?thesis
    using assms(1) by (auto simp: onaudioprocess_cases [OF sock] audio_inv_def sock)
qed

lemma inv_step:
  assumes "audio_inv s"
  shows "audio_inv (snd (step v env s e))"
proof (cases e)
  case (StartRecording r)
  then show ?thesis using assms by (simp add: inv_startRecording)
next
  case StopRecording
  then show ?thesis using assms by (simp add: inv_stopRecording)
next
  case (WsOpen origin)
  then show ?thesis using assms
    by (cases origin; cases "socketRef s") (auto simp: audio_inv_def onopen_def)
next
  case (WsMessage origin p)
  then show ?thesis using assms
    by (cases origin; cases "socketRef s") (auto simp: audio_inv_def onmessage_frame)
next
  case (WsError origin m)
  then show ?thesis using assms
    by (cases origin; cases "socketRef s") (auto simp: audio_inv_def onerror_frame)
next
  case WsClose
  then show ?thesis using assms
    by (cases "socketRef s") (auto simp: audio_inv_def)
next
  case (AudioProcess b)
  then show ?thesis using assms by (simp add: inv_onaudioprocess)
next
  case (DataAvailable n)
  then show ?thesis using assms by (auto simp: audio_inv_def ondataavailable_def)
next
  case RecorderStop
  then show ?thesis using assms
    by (cases "mediaRecorderRef s") (auto simp: audio_inv_def onstop_def)
qed

lemma inv_run: "audio_inv s \<Longrightarrow> audio_inv (run v env s evs)"
  by (induction evs arbitrary: s) (simp_all add: inv_step)

text \<open>
  C3: in every state the component reaches, an audio block delivered to the audio
  callback finds a socket in \<open>socketRef\<close>; if that socket is open the callback hands
  exactly the encoded frame to it and throws nothing; if it is not open the callback
  throws nothing, transmits nothing and keeps the frame nowhere: but for the log of
  encoder calls, the state is unchanged.
\<close>

theorem C3_frame_sent_iff_open:
  assumes "s = run v env initial evs" and "audio_enabled s"
  shows "\<exists>sock. socketRef s = Some sock \<and>
     (readyState sock = OPEN \<longrightarrow>
        onaudioprocess v s inputData =
          (None, s\<lparr>encodeLog := encodeLog s @ [convertFloat32ToInt16 inputData],
                    socketRef := Some (sock\<lparr>transmitted :=
                       transmitted sock @ [convertFloat32ToInt16 inputData]\<rparr>)\<rparr>)) \<and>
     (readyState sock \<noteq> OPEN \<longrightarrow>
        fst (onaudioprocess v s inputData) = None \<and>
        (snd (onaudioprocess v s inputData))\<lparr>encodeLog := encodeLog s\<rparr> = s)"
proof -
  have "audio_inv s" using assms(1) inv_run [OF inv_initial] by simp
  from enabled_socket [OF this assms(2)] obtain sock where sock: "socketRef s = Some sock" ..
  show ?thesis
    by (rule exI [of _ sock]) (simp add: sock onaudioprocess_cases [OF sock])
qed

text \<open>
  C3, at the state after \<open>startRecording\<close> and the opening of the socket, where the
  block is sent, and at the state after \<open>startRecording\<close> alone, where it is dropped.
\<close>

theorem C3_frame_sent_iff_open_witness:
  "audio_enabled (run Part_000 env0 initial [StartRecording (Connecting [Live]), WsOpen Current]) \<and>
   onaudioprocess Part_000
     (run Part_000 env0 initial [StartRecording (Connecting [Live]), WsOpen Current])
     [Num (1 / 2)] =
   (None, (run Part_000 env0 initial [StartRecording (Connecting [Live]), WsOpen Current])
      \<lparr>encodeLog := [[16383]],
        socketRef := Some \<lparr>readyState = OPEN, transmitted = [[16383]],
          audioContext = Some Running, processor = Some Connected\<rparr>\<rparr>) \<and>
   audio_enabled (run App_js env0 initial [StartRecording (Connecting [Live])]) \<and>
   onaudioprocess App_js (run App_js env0 initial [StartRecording (Connecting [Live])])
     [Num (1 / 2)] =
   (None, (run App_js env0 initial [StartRecording (Connecting [Live])])
      \<lparr>encodeLog := [[16383]]\<rparr>)"
proof -
  let ?e1 = "[StartRecording (Connecting [Live]), WsOpen Current]"
  let ?e2 = "[StartRecording (Connecting [Live])]"
  have c: "convertFloat32ToInt16 [Num (1 / 2)] = [16383]" by code_simp
  have a1: "audio_enabled (run Part_000 env0 initial ?e1)"
    by (simp add: audio_enabled_def startRecording_def initial_def onopen_def)
  have a2: "audio_enabled (run App_js env0 initial ?e2)"
    by (simp add: audio_enabled_def startRecording_def initial_def)
  from C3_frame_sent_iff_open [OF refl a1, of "[Num (1 / 2)]"] C3_frame_sent_iff_open [OF refl a2, of "[Num (1 / 2)]"]
  show ?thesis
    by (simp add: audio_enabled_def startRecording_def initial_def onopen_def c
        onaudioprocess_def Let_def ws_send_def)
qed












section \<open>The waveform player: proofs\<close>

lemma kd_refl: "keeps_destroyed w w"
  by (simp add: keeps_destroyed_def)










lemma kd_if: "keeps_destroyed w (f w) \<Longrightarrow> keeps_destroyed w (if c then f w else w)"
  by (simp add: kd_refl)
























end
